theory Spec2Isabelle
  imports Main "HOL-Library.AList" "HOL-Library.Char_ord" "HOL-Library.List_Lexorder"
begin

section \<open>Entry model (models.py)\<close>

text \<open>
  The dataclass \<^verbatim>\<open>DocEntry\<close> and its two enums.  A Python \<^verbatim>\<open>str\<close> is a
  \<^typ>\<open>string\<close>, an \<^verbatim>\<open>Optional[str]\<close> a \<^typ>\<open>string option\<close>.  Every entry is a
  value of its own: no two entries of a collection are the same object and the
  list fields of an entry are shared with no other field, as the dataclass's
  \<^verbatim>\<open>default_factory\<close> and the parsers build them.
  Text is ASCII, one character per code point: \<^verbatim>\<open>len\<close> is \<^const>\<open>length\<close>.
  The field \<^verbatim>\<open>id\<close> is called \<open>id_of\<close> here.
\<close>

datatype DocEntryType = STRUCTURE | SUFFIX | FUNCTION | KEYWORD | CONSTANT | COMMAND

datatype DocAccessMode = NONE | GET | SET | GET_SET | METHOD

record DocEntry =
  id_of :: string
  name :: string
  type :: DocEntryType
  parent_structure :: "string option"
  return_type :: "string option"
  access :: DocAccessMode
  signature :: "string option"
  description :: "string option"
  snippet :: "string option"
  source_ref :: "string option"
  tags :: "string list"
  aliases :: "string list"
  related :: "string list"
  deprecated :: bool
  deprecation_note :: "string option"

text \<open>Python's truth value of an \<^verbatim>\<open>Optional[str]\<close>: neither \<^verbatim>\<open>None\<close> nor empty.\<close>

definition truthy :: "string option \<Rightarrow> bool" where
  "truthy s = (case s of None \<Rightarrow> False | Some t \<Rightarrow> t \<noteq> [])"

section \<open>Strings, sets and regular expressions of the Python library\<close>

text \<open>
  \<^verbatim>\<open>str.upper\<close> and \<^verbatim>\<open>str.lower\<close> on ASCII text: the letters a-z and A-Z are
  mapped, every other character is left as it is.
\<close>

definition upper_char :: "char \<Rightarrow> char" where
  "upper_char c =
     (let n = (of_char c :: nat) in if 97 \<le> n \<and> n \<le> 122 then char_of (n - 32) else c)"

definition lower_char :: "char \<Rightarrow> char" where
  "lower_char c =
     (let n = (of_char c :: nat) in if 65 \<le> n \<and> n \<le> 90 then char_of (n + 32) else c)"

definition upper :: "string \<Rightarrow> string" where
  "upper s = map upper_char s"

definition lower :: "string \<Rightarrow> string" where
  "lower s = map lower_char s"

text \<open>\<^verbatim>\<open>s.startswith(p)\<close>, \<^verbatim>\<open>s.endswith(p)\<close> and the substring test \<^verbatim>\<open>p in s\<close>.\<close>

definition startswith :: "string \<Rightarrow> string \<Rightarrow> bool" where
  "startswith s p = (take (length p) s = p)"

definition endswith :: "string \<Rightarrow> string \<Rightarrow> bool" where
  "endswith s p = (length p \<le> length s \<and> drop (length s - length p) s = p)"

fun contains :: "string \<Rightarrow> string \<Rightarrow> bool" where
  "contains [] p = (p = [])"
| "contains (c # s) p = (startswith (c # s) p \<or> contains s p)"

text \<open>\<^verbatim>\<open>s.split(sep)\<close> for a one-character separator; the result is never empty.\<close>

fun split_on :: "char \<Rightarrow> string \<Rightarrow> string list" where
  "split_on sep [] = [[]]"
| "split_on sep (c # cs) =
     (if c = sep then [] # split_on sep cs
      else (case split_on sep cs of [] \<Rightarrow> [[c]] | p # ps \<Rightarrow> (c # p) # ps))"

text \<open>
  A Python \<^verbatim>\<open>set\<close> of strings is kept as the list of its elements without
  repetition, in the order in which they were first added.  \<^verbatim>\<open>set.add\<close>,
  \<^verbatim>\<open>set.update\<close> and the constructor \<^verbatim>\<open>set(xs)\<close>:
\<close>

definition set_add :: "string list \<Rightarrow> string \<Rightarrow> string list" where
  "set_add s x = (if x \<in> set s then s else s @ [x])"

definition set_update :: "string list \<Rightarrow> string list \<Rightarrow> string list" where
  "set_update s xs = fold (\<lambda>x acc. set_add acc x) xs s"

definition set_from :: "string list \<Rightarrow> string list" where
  "set_from xs = set_update [] xs"

text \<open>
  The order in which \<^verbatim>\<open>list(s)\<close> enumerates a set is fixed by the hash values of
  its elements and by the history of insertions; the program does not control it.
  It is a parameter \<open>enum\<close> of the model, from the elements in insertion order to
  the enumeration, about which only this is known: it lists the same elements,
  each once.
\<close>

definition enumerates :: "(string list \<Rightarrow> string list) \<Rightarrow> bool" where
  "enumerates enum = (\<forall>xs. distinct xs \<longrightarrow> distinct (enum xs) \<and> set (enum xs) = set xs)"

text \<open>
  The three shapes of regular expression in \<^verbatim>\<open>TAG_PATTERNS\<close>, under
  \<^verbatim>\<open>re.search\<close> without flags: \<open>Start_Seg X\<close> is \<^verbatim>\<open>^X(:|$)\<close>, \<open>Start X\<close> is
  \<^verbatim>\<open>^X\<close> and \<open>End_Seg X\<close> is \<^verbatim>\<open>:X$\<close>.  Python's \<^verbatim>\<open>$\<close> matches at the end of
  the text and also just before a newline that ends the text.
\<close>

datatype pattern = Start_Seg string | Start string | End_Seg string

fun re_search :: "pattern \<Rightarrow> string \<Rightarrow> bool" where
  "re_search (Start_Seg x) s =
     (startswith s (x @ '':'') \<or> s = x \<or> s = x @ [CHR 0x0A])"
| "re_search (Start x) s = startswith s x"
| "re_search (End_Seg x) s =
     (endswith s ('':'' @ x) \<or> endswith s ('':'' @ x @ [CHR 0x0A]))"

text \<open>
  \<^verbatim>\<open>re.search(r"\b" + re.escape(w) + r"\b", s)\<close>: the literal text \<open>w\<close> occurs in
  \<open>s\<close> with a word boundary on each side.  A word character is an ASCII letter,
  a digit or the underscore; a boundary lies between a word character and a
  character that is none (or an end of the text).
\<close>

definition is_word_char :: "char \<Rightarrow> bool" where
  "is_word_char c =
     (let n = (of_char c :: nat)
      in (48 \<le> n \<and> n \<le> 57) \<or> (65 \<le> n \<and> n \<le> 90) \<or> (97 \<le> n \<and> n \<le> 122) \<or> n = 95)"

definition word_boundary :: "string \<Rightarrow> nat \<Rightarrow> bool" where
  "word_boundary s i =
     ((0 < i \<and> i \<le> length s \<and> is_word_char (s ! (i - 1)))
      \<noteq> (i < length s \<and> is_word_char (s ! i)))"

definition word_search :: "string \<Rightarrow> string \<Rightarrow> bool" where
  "word_search w s =
     (length w \<le> length s \<and>
      list_ex (\<lambda>i. take (length w) (drop i s) = w
                   \<and> word_boundary s i \<and> word_boundary s (i + length w))
              [0 ..< length s - length w + 1])"

section \<open>Deduplicator (postprocess.py)\<close>

text \<open>
  \<^verbatim>\<open>_entry_quality_score\<close>.  The guards \<^verbatim>\<open>if entry.tags:\<close> and
  \<^verbatim>\<open>if entry.related:\<close> are kept as written.
\<close>

definition entry_quality_score :: "DocEntry \<Rightarrow> nat" where
  "entry_quality_score entry =
     (let score = 0;
          score = (if truthy (description entry)
                   then score + min (length (the (description entry))) 200 else score);
          score = (if truthy (snippet entry) then score + 50 else score);
          score = (if tags entry \<noteq> [] then score + length (tags entry) * 5 else score);
          score = (if related entry \<noteq> [] then score + length (related entry) * 3 else score);
          score = (if truthy (source_ref entry) \<and> CHR ''#'' \<in> set (the (source_ref entry))
                   then score + 10 else score)
      in score)"

text \<open>
  The loop \<^verbatim>\<open>for x in source: if x not in target: target.append(x)\<close> of
  \<^verbatim>\<open>_merge_entry_fields\<close>, used for the tags and for the related ids.
\<close>

fun append_missing :: "string list \<Rightarrow> string list \<Rightarrow> string list" where
  "append_missing target [] = target"
| "append_missing target (x # xs) =
     append_missing (if x \<in> set target then target else target @ [x]) xs"

text \<open>\<^verbatim>\<open>_merge_entry_fields\<close> mutates \<^verbatim>\<open>target\<close>; the model returns it.\<close>

definition merge_entry_fields :: "DocEntry \<Rightarrow> DocEntry \<Rightarrow> DocEntry" where
  "merge_entry_fields target source =
     (let target = (if \<not> truthy (snippet target) \<and> truthy (snippet source)
                    then target\<lparr>snippet := snippet source\<rparr> else target);
          target = (if \<not> truthy (description target) \<and> truthy (description source)
                    then target\<lparr>description := description source\<rparr> else target);
          target = target\<lparr>tags := append_missing (tags target) (tags source)\<rparr>;
          target = target\<lparr>related := append_missing (related target) (related source)\<rparr>
      in target)"

text \<open>
  \<^verbatim>\<open>entry_map\<close> is a Python dict: it keeps the order in which keys were first
  inserted, and an assignment to a key that is present replaces the value where it
  stands.  That is an association list under \<^const>\<open>AList.update\<close>.  One round of
  the loop of \<^verbatim>\<open>deduplicate_entries\<close>:
\<close>

definition dedup_step :: "DocEntry \<Rightarrow> (string \<times> DocEntry) list \<Rightarrow> (string \<times> DocEntry) list" where
  "dedup_step entry entry_map =
     (case map_of entry_map (id_of entry) of
        None \<Rightarrow> AList.update (id_of entry) entry entry_map
      | Some existing \<Rightarrow>
          (let existing_score = entry_quality_score existing;
               new_score = entry_quality_score entry
           in if new_score > existing_score
              then AList.update (id_of entry) entry entry_map
              else AList.update (id_of entry) (merge_entry_fields existing entry) entry_map))"

text \<open>The dict after the loop has run over \<open>entries\<close>, and the returned list of its values.\<close>

definition dedup_map :: "DocEntry list \<Rightarrow> (string \<times> DocEntry) list" where
  "dedup_map entries = fold dedup_step entries []"

definition deduplicate_entries :: "DocEntry list \<Rightarrow> DocEntry list" where
  "deduplicate_entries entries = map snd (dedup_map entries)"

text \<open>The dict invariant: keys are distinct and each entry is stored under its own id.\<close>

definition keyed_by_id :: "(string \<times> DocEntry) list \<Rightarrow> bool" where
  "keyed_by_id m = (distinct (map fst m) \<and> list_all (\<lambda>p. id_of (snd p) = fst p) m)"

section \<open>Cross-Referencer (postprocess.py)\<close>

text \<open>
  \<^verbatim>\<open>entry_by_id = {e.id: e for e in entries}\<close>: a key keeps the place of its first
  entry and the value of its last.  (\<^verbatim>\<open>entry_by_name\<close> is built by the source
  and never read; it is left out.)
\<close>

definition entry_by_id :: "DocEntry list \<Rightarrow> (string \<times> DocEntry) list" where
  "entry_by_id entries = fold (\<lambda>e m. AList.update (id_of e) e m) entries []"

text \<open>
  The number of ids in \<open>related_ids\<close> that start with \<^verbatim>\<open>entry.id + ":"\<close>, and the
  loop that links a structure to its suffixes, with its body.
\<close>

definition count_prefixed :: "DocEntry \<Rightarrow> string list \<Rightarrow> nat" where
  "count_prefixed entry related_ids =
     length (filter (\<lambda>r. startswith r (id_of entry @ '':'')) related_ids)"

definition link_suffix :: "DocEntry \<Rightarrow> DocEntry \<Rightarrow> string list \<Rightarrow> string list" where
  "link_suffix entry other related_ids =
     (if parent_structure other = Some (id_of entry) \<and> id_of other \<noteq> id_of entry
      then (if count_prefixed entry related_ids < 5
            then set_add related_ids (id_of other) else related_ids)
      else related_ids)"

fun link_suffixes :: "DocEntry \<Rightarrow> DocEntry list \<Rightarrow> string list \<Rightarrow> string list" where
  "link_suffixes entry [] related_ids = related_ids"
| "link_suffixes entry (other # others) related_ids =
     link_suffixes entry others (link_suffix entry other related_ids)"

definition complementary_pairs :: "(string \<times> string) list" where
  "complementary_pairs =
     [(''PROGRADE'', ''RETROGRADE''),
      (''NORMAL'', ''ANTINORMAL''),
      (''RADIAL'', ''ANTIRADIAL''),
      (''LOCK'', ''UNLOCK''),
      (''APOAPSIS'', ''PERIAPSIS''),
      (''ETA:APOAPSIS'', ''ETA:PERIAPSIS'')]"

text \<open>
  The loop over the pairs, with its body; \<open>ids\<close> are the keys of
  \<^verbatim>\<open>entry_by_id\<close>.
\<close>

definition link_pair :: "DocEntry \<Rightarrow> string list \<Rightarrow> string \<times> string \<Rightarrow> string list \<Rightarrow> string list" where
  "link_pair entry ids pair related_ids =
     (if id_of entry = fst pair \<and> snd pair \<in> set ids then set_add related_ids (snd pair)
      else if id_of entry = snd pair \<and> fst pair \<in> set ids then set_add related_ids (fst pair)
      else related_ids)"

fun link_pairs :: "DocEntry \<Rightarrow> string list \<Rightarrow> (string \<times> string) list \<Rightarrow> string list \<Rightarrow> string list" where
  "link_pairs entry ids [] related_ids = related_ids"
| "link_pairs entry ids (pair # pairs) related_ids =
     link_pairs entry ids pairs (link_pair entry ids pair related_ids)"

text \<open>
  The scan of the description for the names of the other entries, with its body:
  the entry itself is skipped, and a name counts when it occurs in the description
  as a substring and as a whole word.
\<close>

definition link_mention :: "DocEntry \<Rightarrow> string \<Rightarrow> string \<times> DocEntry \<Rightarrow> string list \<Rightarrow> string list" where
  "link_mention entry desc_upper item related_ids =
     (let other_id = fst item; other_entry = snd item
      in if other_id = id_of entry then related_ids
         else if contains desc_upper (upper (name other_entry))
                 \<and> word_search (upper (name other_entry)) desc_upper
              then set_add related_ids other_id
         else related_ids)"

fun link_mentions :: "DocEntry \<Rightarrow> string \<Rightarrow> (string \<times> DocEntry) list \<Rightarrow> string list \<Rightarrow> string list" where
  "link_mentions entry desc_upper [] related_ids = related_ids"
| "link_mentions entry desc_upper (item # items) related_ids =
     link_mentions entry desc_upper items (link_mention entry desc_upper item related_ids)"

text \<open>
  The three guarded blocks of the loop body: the link to the parent structure
  (\<open>ids\<close> are the keys of \<^verbatim>\<open>entry_by_id\<close>), the links of a structure to
  its suffixes, and the scan of a description that is present.
\<close>

definition link_parent :: "DocEntry \<Rightarrow> string list \<Rightarrow> string list \<Rightarrow> string list" where
  "link_parent entry ids related_ids =
     (if truthy (parent_structure entry) \<and> the (parent_structure entry) \<in> set ids
      then set_add related_ids (the (parent_structure entry)) else related_ids)"

definition link_structure :: "DocEntry \<Rightarrow> DocEntry list \<Rightarrow> string list \<Rightarrow> string list" where
  "link_structure entry entries related_ids =
     (if type entry = STRUCTURE then link_suffixes entry entries related_ids else related_ids)"

definition link_description :: "DocEntry \<Rightarrow> (string \<times> DocEntry) list \<Rightarrow> string list \<Rightarrow> string list" where
  "link_description entry by_id related_ids =
     (if truthy (description entry)
      then (let desc_upper = upper (the (description entry))
            in link_mentions entry desc_upper by_id related_ids)
      else related_ids)"

text \<open>
  The set \<^verbatim>\<open>related_ids\<close> of one entry when the body of the main loop reaches
  its last statement.
\<close>

definition related_candidates :: "DocEntry list \<Rightarrow> DocEntry \<Rightarrow> string list" where
  "related_candidates entries entry =
     (let by_id = entry_by_id entries;
          ids = map fst by_id;
          related_ids = set_from (related entry);
          related_ids = link_parent entry ids related_ids;
          related_ids = link_structure entry entries related_ids;
          related_ids = link_pairs entry ids complementary_pairs related_ids;
          related_ids = link_description entry by_id related_ids
      in related_ids)"

text \<open>
  \<^verbatim>\<open>entry.related = list(related_ids)[:10]\<close>, and the main loop.  The body reads
  of the other entries only \<^verbatim>\<open>id\<close>, \<^verbatim>\<open>name\<close> and \<^verbatim>\<open>parent_structure\<close>, which
  the loop never writes, so every round sees the collection as it was given.
\<close>

definition link_entry :: "(string list \<Rightarrow> string list) \<Rightarrow> DocEntry list \<Rightarrow> DocEntry \<Rightarrow> DocEntry" where
  "link_entry enum entries entry =
     entry\<lparr>related := take 10 (enum (related_candidates entries entry))\<rparr>"

definition build_related_links :: "(string list \<Rightarrow> string list) \<Rightarrow> DocEntry list \<Rightarrow> DocEntry list" where
  "build_related_links enum entries = map (link_entry enum entries) entries"

section \<open>Validator: cross-reference integrity (postprocess.py)\<close>

text \<open>
  One round of the loop of \<^verbatim>\<open>validate_cross_references\<close>: the entry as the round
  leaves it, and the warnings the round appends.
\<close>

definition parent_warning :: "DocEntry \<Rightarrow> string" where
  "parent_warning entry =
     ''Entry '' @ id_of entry @ '' references non-existent parent: ''
       @ the (parent_structure entry)"

definition check_references :: "string set \<Rightarrow> DocEntry \<Rightarrow> DocEntry \<times> string list" where
  "check_references entry_ids entry =
     (let invalid_related = filter (\<lambda>related_id. related_id \<notin> entry_ids) (related entry);
          entry' = (if invalid_related \<noteq> []
                    then entry\<lparr>related := filter (\<lambda>r. r \<in> entry_ids) (related entry)\<rparr>
                    else entry)
      in (entry',
          if truthy (parent_structure entry) \<and> the (parent_structure entry) \<notin> entry_ids
          then [parent_warning entry] else []))"

text \<open>
  The loop, with the entries already visited, the errors and the warnings as
  accumulators; the result is the collection as the function leaves it together
  with the returned pair.
\<close>

fun cross_reference_loop ::
  "string set \<Rightarrow> DocEntry list \<Rightarrow> DocEntry list \<Rightarrow> string list \<Rightarrow> string list
     \<Rightarrow> DocEntry list \<times> string list \<times> string list" where
  "cross_reference_loop entry_ids [] visited errors warnings = (visited, errors, warnings)"
| "cross_reference_loop entry_ids (entry # rest) visited errors warnings =
     (case check_references entry_ids entry of
        (entry', ws) \<Rightarrow> cross_reference_loop entry_ids rest (visited @ [entry']) errors (warnings @ ws))"

definition validate_cross_references :: "DocEntry list \<Rightarrow> DocEntry list \<times> string list \<times> string list" where
  "validate_cross_references entries =
     cross_reference_loop (set (map id_of entries)) entries [] [] []"

section \<open>Tag Engine (tag_taxonomy.py)\<close>

text \<open>The rule tables, in the order of the source's dict literals.\<close>

definition TAG_PATTERNS :: "(pattern \<times> string list) list" where
  "TAG_PATTERNS =
    [(Start_Seg ''VESSEL'', [''vessel'', ''core'']),
     (Start_Seg ''SHIP'', [''vessel'', ''core'']), (Start_Seg ''ORBIT'', [''orbit'']),
     (Start_Seg ''BODY'', [''body'']), (Start_Seg ''PART'', [''part'']),
     (Start_Seg ''ENGINE'', [''part'', ''control'']),
     (Start_Seg ''SENSOR'', [''part'', ''science'']), (Start ''SCIENCE'', [''science'']),
     (Start ''ANTENNA'', [''communication'', ''part'']), (Start ''COMM'', [''communication'']),
     (Start ''DOCK'', [''docking'', ''part'']), (Start ''CREW'', [''crew'']),
     (Start ''KERBAL'', [''crew'']), (Start ''MANEUVER'', [''maneuver'', ''orbit'']),
     (Start_Seg ''NODE'', [''maneuver'', ''orbit'']), (Start_Seg ''STAGE'', [''staging'']),
     (Start ''RESOURCE'', [''resource'', ''fuel'']), (Start ''GUI'', [''gui'']),
     (Start ''WIDGET'', [''gui'']), (Start ''FILE'', [''io'']), (Start ''VOLUME'', [''io'']),
     (Start ''TIME'', [''time'']), (Start ''TIMESTAMP'', [''time'']),
     (Start_Seg ''LIST'', [''collection'']), (Start ''LEXICON'', [''collection'']),
     (Start ''ITERATOR'', [''collection'']), (Start ''RANGE'', [''collection'']),
     (Start ''QUEUE'', [''collection'']), (Start ''STACK'', [''collection'']),
     (Start_Seg ''VECTOR'', [''vector'', ''math'']),
     (Start_Seg ''DIRECTION'', [''direction'', ''navigation'']),
     (Start ''HEADING'', [''direction'', ''navigation'']),
     (Start ''GEOPOSITION'', [''position'', ''navigation'', ''body'']),
     (Start ''LATLNG'', [''position'', ''navigation'']),
     (Start ''ATMOSPHERE'', [''atmosphere'', ''body'']),
     (Start ''WAYPOINT'', [''navigation'']),
     (End_Seg ''ALTITUDE'', [''vessel'', ''position'']), (End_Seg ''APOAPSIS'', [''orbit'']),
     (End_Seg ''PERIAPSIS'', [''orbit'']), (End_Seg ''INCLINATION'', [''orbit'']),
     (End_Seg ''ECCENTRICITY'', [''orbit'']), (End_Seg ''SEMIMAJORAXIS'', [''orbit'']),
     (End_Seg ''VELOCITY'', [''velocity'']), (End_Seg ''POSITION'', [''position'']),
     (End_Seg ''FACING'', [''direction'', ''rotation'']), (End_Seg ''UP'', [''direction'']),
     (End_Seg ''NORTH'', [''direction'']),
     (End_Seg ''HEADING'', [''direction'', ''navigation'']),
     (End_Seg ''THRUST'', [''control'']), (End_Seg ''THROTTLE'', [''control'']),
     (End_Seg ''MASS'', [''vessel'']), (End_Seg ''DRYMASS'', [''vessel'', ''fuel'']),
     (End_Seg ''WETMASS'', [''vessel'', ''fuel'']),
     (End_Seg ''MAXTHRUST'', [''control'', ''part'']),
     (End_Seg ''ISP'', [''control'', ''fuel'']), (End_Seg ''STAGE'', [''staging'']),
     (End_Seg ''RESOURCES'', [''resource'']), (End_Seg ''FUEL'', [''fuel'', ''resource'']),
     (End_Seg ''LIQUIDFUEL'', [''fuel'', ''resource'']),
     (End_Seg ''OXIDIZER'', [''fuel'', ''resource'']),
     (End_Seg ''MONOPROPELLANT'', [''fuel'', ''resource'']),
     (End_Seg ''ELECTRICCHARGE'', [''resource'']), (End_Seg ''CREW'', [''crew'']),
     (End_Seg ''PARTS'', [''part'']), (End_Seg ''ENGINES'', [''part'', ''control'']),
     (End_Seg ''SENSORS'', [''part'', ''science'']), (End_Seg ''ETA'', [''time'', ''orbit'']),
     (End_Seg ''PERIOD'', [''time'', ''orbit'']), (End_Seg ''BODY'', [''body'']),
     (End_Seg ''SOI'', [''body'', ''orbit'']),
     (End_Seg ''ATMOSPHERE'', [''atmosphere'', ''body'']),
     (End_Seg ''HASATMOSPHERE'', [''atmosphere'', ''body'']),
     (End_Seg ''STATUS'', [''vessel'']), (End_Seg ''SITUATION'', [''vessel'']),
     (End_Seg ''CONTROL'', [''control'']), (End_Seg ''CONNECTION'', [''communication'']),
     (End_Seg ''SIGNAL'', [''communication'']), (End_Seg ''EXPERIMENTS'', [''science'']),
     (End_Seg ''DATA'', [''science'']), (End_Seg ''MAG'', [''vector'', ''math'']),
     (End_Seg ''NORMALIZED'', [''vector'', ''math'']),
     (End_Seg ''X'', [''vector'', ''position'']), (End_Seg ''Y'', [''vector'', ''position'']),
     (End_Seg ''Z'', [''vector'', ''position'']),
     (End_Seg ''ROLL'', [''rotation'', ''direction'']),
     (End_Seg ''PITCH'', [''rotation'', ''direction'']),
     (End_Seg ''YAW'', [''rotation'', ''direction'']), (End_Seg ''TARGET'', [''navigation'']),
     (End_Seg ''HASTARGET'', [''navigation''])]"

definition KEYWORD_TAG_HINTS :: "(string \<times> string list) list" where
  "KEYWORD_TAG_HINTS =
    [(''THROTTLE'', [''control'', ''core'']),
     (''STEERING'', [''control'', ''navigation'', ''core'']),
     (''LOCK'', [''binding'', ''core'']), (''UNLOCK'', [''binding'']),
     (''SAS'', [''control'', ''autopilot'', ''systems'']),
     (''RCS'', [''control'', ''systems'']), (''GEAR'', [''systems'', ''landing'']),
     (''LIGHTS'', [''systems'']), (''BRAKES'', [''systems'', ''landing'']),
     (''ABORT'', [''systems'', ''staging'']), (''AG1'', [''action'', ''systems'']),
     (''AG2'', [''action'', ''systems'']), (''AG3'', [''action'', ''systems'']),
     (''AG4'', [''action'', ''systems'']), (''AG5'', [''action'', ''systems'']),
     (''AG6'', [''action'', ''systems'']), (''AG7'', [''action'', ''systems'']),
     (''AG8'', [''action'', ''systems'']), (''AG9'', [''action'', ''systems'']),
     (''AG10'', [''action'', ''systems'']),
     (''PROGRADE'', [''direction'', ''navigation'', ''orbit'']),
     (''RETROGRADE'', [''direction'', ''navigation'', ''orbit'']),
     (''NORMAL'', [''direction'', ''navigation'', ''orbit'']),
     (''ANTINORMAL'', [''direction'', ''navigation'', ''orbit'']),
     (''RADIAL'', [''direction'', ''navigation'', ''orbit'']),
     (''ANTIRADIAL'', [''direction'', ''navigation'', ''orbit'']),
     (''SRFPROGRADE'', [''direction'', ''navigation'', ''flight'']),
     (''SRFRETROGRADE'', [''direction'', ''navigation'', ''flight'']),
     (''TARGET'', [''navigation'']), (''WAIT'', [''time'', ''core'']),
     (''WHEN'', [''trigger'']), (''ON'', [''trigger'']), (''UNTIL'', [''language'', ''core'']),
     (''IF'', [''language'', ''core'']), (''ELSE'', [''language'', ''core'']),
     (''FOR'', [''language'', ''collection'']), (''FROM'', [''language'']),
     (''SET'', [''language'', ''core'']), (''PRINT'', [''io'', ''core'']), (''LOG'', [''io'']),
     (''RUN'', [''language'', ''core'']), (''RUNPATH'', [''language'', ''io'']),
     (''RUNONCEPATH'', [''language'', ''io'']), (''STAGE'', [''staging'', ''core'']),
     (''REBOOT'', [''systems'']), (''SHUTDOWN'', [''systems'']),
     (''ABS'', [''math'', ''function'']), (''CEILING'', [''math'', ''function'']),
     (''FLOOR'', [''math'', ''function'']), (''ROUND'', [''math'', ''function'']),
     (''SQRT'', [''math'', ''function'']), (''LN'', [''math'', ''function'']),
     (''LOG10'', [''math'', ''function'']), (''MIN'', [''math'', ''function'']),
     (''MAX'', [''math'', ''function'']), (''MOD'', [''math'', ''function'']),
     (''SIN'', [''math'', ''function'']), (''COS'', [''math'', ''function'']),
     (''TAN'', [''math'', ''function'']), (''ARCSIN'', [''math'', ''function'']),
     (''ARCCOS'', [''math'', ''function'']), (''ARCTAN'', [''math'', ''function'']),
     (''ARCTAN2'', [''math'', ''function'']), (''RANDOM'', [''math'', ''function'']),
     (''V'', [''vector'', ''math'', ''function'']),
     (''R'', [''direction'', ''rotation'', ''function'']),
     (''Q'', [''rotation'', ''function'']),
     (''HEADING'', [''direction'', ''navigation'', ''function'']),
     (''LOOKDIRUP'', [''direction'', ''rotation'', ''function'']),
     (''ANGLEAXIS'', [''rotation'', ''math'', ''function'']),
     (''ROTATEFROMTO'', [''rotation'', ''math'', ''function'']),
     (''VCRS'', [''vector'', ''math'', ''function'']),
     (''VDOT'', [''vector'', ''math'', ''function'']),
     (''VANG'', [''vector'', ''math'', ''function'']),
     (''VXCL'', [''vector'', ''math'', ''function''])]"

definition RETURN_TYPE_TAGS :: "(string \<times> string list) list" where
  "RETURN_TYPE_TAGS =
    [(''vector'', [''vector'']), (''direction'', [''direction'']), (''scalar'', [''numeric'']),
     (''number'', [''numeric'']), (''boolean'', [''boolean'']), (''bool'', [''boolean'']),
     (''string'', [''string'']), (''list'', [''collection'']), (''lexicon'', [''collection'']),
     (''iterator'', [''collection'']), (''timespan'', [''time'']), (''timestamp'', [''time'']),
     (''geoposition'', [''position'', ''navigation'']), (''vessel'', [''vessel'']),
     (''body'', [''body'']), (''orbit'', [''orbit'']), (''part'', [''part''])]"
text \<open>\<^verbatim>\<open>get_tags_from_patterns\<close>: every pattern that matches contributes.\<close>

definition get_tags_from_patterns :: "string \<Rightarrow> string list" where
  "get_tags_from_patterns entry_id =
     (let entry_upper = upper entry_id
      in fold (\<lambda>(pattern, pattern_tags) tags.
                 if re_search pattern entry_upper then set_update tags pattern_tags else tags)
              TAG_PATTERNS [])"

definition get_tags_from_keyword :: "string \<Rightarrow> string list" where
  "get_tags_from_keyword nm =
     (let name_upper = upper nm
      in case map_of KEYWORD_TAG_HINTS name_upper of
           Some hints \<Rightarrow> set_from hints
         | None \<Rightarrow> [])"

definition get_tags_from_return_type :: "string option \<Rightarrow> string list" where
  "get_tags_from_return_type rt =
     (if \<not> truthy rt then []
      else let type_lower = lower (the rt)
           in fold (\<lambda>(type_pattern, type_tags) tags.
                      if contains type_lower type_pattern then set_update tags type_tags else tags)
                   RETURN_TYPE_TAGS [])"

definition description_hints :: "(string \<times> string list) list" where
  "description_hints =
     [(''orbit'', [''orbit'', ''orbital'', ''apoapsis'', ''periapsis'', ''inclination'']),
      (''maneuver'', [''maneuver'', ''burn'', ''delta-v'', ''deltav'']),
      (''velocity'', [''velocity'', ''speed'']),
      (''position'', [''position'', ''coordinate'', ''location'']),
      (''autopilot'', [''autopilot'', ''auto-pilot'', ''cooked control'']),
      (''trajectory'', [''trajectory'', ''path'', ''prediction'']),
      (''atmosphere'', [''atmosphere'', ''atmospheric'', ''air'']),
      (''docking'', [''dock'', ''docking'', ''port'']),
      (''landing'', [''land'', ''landing'', ''touchdown'', ''gear'']),
      (''staging'', [''stage'', ''staging'', ''decouple'', ''separate''])]"

definition get_tags_from_description :: "string option \<Rightarrow> string list" where
  "get_tags_from_description d =
     (if \<not> truthy d then []
      else let desc_lower = lower (the d)
           in fold (\<lambda>(tag, keywords) tags.
                      if list_ex (\<lambda>keyword. contains desc_lower keyword) keywords
                      then set_add tags tag else tags)
                   description_hints [])"

fun type_tags :: "DocEntryType \<Rightarrow> string list" where
  "type_tags STRUCTURE = [''structure'']"
| "type_tags SUFFIX = []"
| "type_tags FUNCTION = [''function'']"
| "type_tags KEYWORD = [''keyword'']"
| "type_tags CONSTANT = [''constant'']"
| "type_tags COMMAND = [''command'']"

text \<open>
  \<^verbatim>\<open>assign_tags_to_entry\<close>.  The result \<^verbatim>\<open>sorted(list(tags))\<close> does not depend on
  the order in which the set is enumerated.
\<close>

definition assign_tags_to_entry :: "DocEntry \<Rightarrow> string list" where
  "assign_tags_to_entry entry =
     (let tags = set_from (tags entry);
          tags = set_update tags (get_tags_from_patterns (id_of entry));
          tags = set_update tags (get_tags_from_keyword (name entry));
          tags = set_update tags (get_tags_from_return_type (return_type entry));
          tags = set_update tags (get_tags_from_description (description entry));
          tags = set_update tags (type_tags (type entry));
          tags = (if deprecated entry then set_add tags ''deprecated'' else tags);
          tags = (if length tags < 2
                  then (let tags = (if truthy (parent_structure entry)
                                    then set_update tags
                                           (get_tags_from_patterns (the (parent_structure entry)))
                                    else tags)
                        in if length tags < 2 then set_add tags ''misc'' else tags)
                  else tags)
      in sort tags)"

section \<open>Category Classifier (metadata_mappings.py)\<close>

definition STRUCTURE_CATEGORIES :: "(string \<times> string) list" where
  "STRUCTURE_CATEGORIES =
    [(''VESSEL'', ''Vessel Properties''), (''SHIP'', ''Vessel Properties''),
     (''ORBITABLE'', ''Vessel Properties''), (''VESSELALT'', ''Vessel Properties''),
     (''BOUNDS'', ''Vessel Properties''), (''CREWMEMBER'', ''Vessel Properties''),
     (''ORBIT'', ''Orbital Mechanics''), (''ORBITETA'', ''Orbital Mechanics''),
     (''ORBITINFO'', ''Orbital Mechanics''), (''BODY'', ''Celestial Bodies''),
     (''ATMOSPHERE'', ''Celestial Bodies''), (''GEOPOSITION'', ''Celestial Bodies''),
     (''LATLNG'', ''Celestial Bodies''), (''WAYPOINT'', ''Celestial Bodies''),
     (''PART'', ''Parts & Modules''), (''PARTMODULE'', ''Parts & Modules''),
     (''ENGINE'', ''Parts & Modules''), (''GIMBAL'', ''Parts & Modules''),
     (''DECOUPLER'', ''Parts & Modules''), (''SEPARATOR'', ''Parts & Modules''),
     (''DOCKINGPORT'', ''Parts & Modules''), (''SENSOR'', ''Parts & Modules''),
     (''LAUNCHCLAMP'', ''Parts & Modules''), (''RCS'', ''Parts & Modules''),
     (''SOLARPANEL'', ''Parts & Modules''), (''CONSUMEDRESOURCE'', ''Parts & Modules''),
     (''RESOURCE'', ''Resources''), (''AGGREGATERESOURCE'', ''Resources''),
     (''STAGEVALUES'', ''Resources''), (''CONTROL'', ''Flight Control''),
     (''STEERINGMANAGER'', ''Flight Control''), (''PIDLOOP'', ''Flight Control''),
     (''MANEUVERNODE'', ''Maneuvers & Navigation''), (''NODE'', ''Maneuvers & Navigation''),
     (''DIRECTION'', ''Maneuvers & Navigation''), (''HEADING'', ''Maneuvers & Navigation''),
     (''VECTOR'', ''Math & Vectors''), (''SCALAR'', ''Math & Vectors''),
     (''CONSTANT'', ''Math & Vectors''), (''LIST'', ''Collections''),
     (''LEXICON'', ''Collections''), (''ITERATOR'', ''Collections''),
     (''RANGE'', ''Collections''), (''QUEUE'', ''Collections''), (''STACK'', ''Collections''),
     (''UNIQUESET'', ''Collections''), (''FILE'', ''I/O & Communication''),
     (''VOLUME'', ''I/O & Communication''), (''VOLUMEFILE'', ''I/O & Communication''),
     (''VOLUMEDIRECTORY'', ''I/O & Communication''), (''VOLUMEITEM'', ''I/O & Communication''),
     (''CORE'', ''I/O & Communication''), (''PROCESSOR'', ''I/O & Communication''),
     (''CONNECTION'', ''I/O & Communication''), (''MESSAGE'', ''I/O & Communication''),
     (''MESSAGEQUEUE'', ''I/O & Communication''), (''GUI'', ''GUI Elements''),
     (''WIDGET'', ''GUI Elements''), (''BOX'', ''GUI Elements''),
     (''BUTTON'', ''GUI Elements''), (''LABEL'', ''GUI Elements''),
     (''TEXTFIELD'', ''GUI Elements''), (''POPUPMENU'', ''GUI Elements''),
     (''SLIDER'', ''GUI Elements''), (''SCROLLBOX'', ''GUI Elements''),
     (''SPACING'', ''GUI Elements''), (''SKIN'', ''GUI Elements''),
     (''STYLE'', ''GUI Elements''), (''STYLESTATE'', ''GUI Elements''),
     (''STYLERECTSTYLE'', ''GUI Elements''), (''TIPDISPLAY'', ''GUI Elements''),
     (''TIME'', ''Time''), (''TIMESPAN'', ''Time''), (''TIMESTAMP'', ''Time''),
     (''KUNIVERSE'', ''Time''), (''SCIENCEDATA'', ''Science''),
     (''SCIENCEEXPERIMENT'', ''Science''), (''SCIENCEEXPERIMENTMODULE'', ''Science''),
     (''CAREER'', ''Career''), (''CONTRACT'', ''Career''), (''CONTRACTPARAMETER'', ''Career''),
     (''NOTE'', ''Career''), (''RGBA'', ''Colors & Styling''),
     (''HSVA'', ''Colors & Styling''), (''HIGHLIGHT'', ''Colors & Styling''),
     (''VECDRAW'', ''Colors & Styling''), (''VECDRAWARGS'', ''Colors & Styling''),
     (''ADDON'', ''Addons''), (''ADDONLIST'', ''Addons'')]"

definition TYPE_CATEGORIES :: "(string \<times> string) list" where
  "TYPE_CATEGORIES =
    [(''function'', ''Built-in Functions''), (''keyword'', ''Language Keywords''),
     (''command'', ''Commands''), (''constant'', ''Constants'')]"
text \<open>\<^verbatim>\<open>d.get(key, default)\<close> on a dict given as an association list.\<close>

definition dict_get :: "(string \<times> string) list \<Rightarrow> string \<Rightarrow> string \<Rightarrow> string" where
  "dict_get d key dflt = (case map_of d key of Some v \<Rightarrow> v | None \<Rightarrow> dflt)"

text \<open>
  The last loop of \<^verbatim>\<open>get_category_for_entry\<close>: the first key, in the order of
  the dict, that the uppercased id starts with (followed by a colon) or equals.
\<close>

fun scan_structures :: "string \<Rightarrow> (string \<times> string) list \<Rightarrow> string option" where
  "scan_structures id_upper [] = None"
| "scan_structures id_upper ((struct, category) # items) =
     (if startswith id_upper (struct @ '':'') \<or> id_upper = struct then Some category
      else scan_structures id_upper items)"

definition get_category_for_entry :: "DocEntry \<Rightarrow> string option" where
  "get_category_for_entry entry =
     (if type entry = FUNCTION then Some (dict_get TYPE_CATEGORIES ''function'' ''Built-in Functions'')
      else if type entry = KEYWORD then Some (dict_get TYPE_CATEGORIES ''keyword'' ''Language Keywords'')
      else if type entry = COMMAND then Some (dict_get TYPE_CATEGORIES ''command'' ''Commands'')
      else if type entry = CONSTANT then Some (dict_get TYPE_CATEGORIES ''constant'' ''Constants'')
      else
        (let structure_name = (if truthy (parent_structure entry)
                               then the (parent_structure entry) else name entry)
         in case map_of STRUCTURE_CATEGORIES (upper structure_name) of
              Some category \<Rightarrow> Some category
            | None \<Rightarrow>
                (let parts = split_on CHR '':'' (upper structure_name)
                 in case map_of STRUCTURE_CATEGORIES (hd parts) of
                      Some category \<Rightarrow> Some category
                    | None \<Rightarrow> scan_structures (upper (id_of entry)) STRUCTURE_CATEGORIES)))"

section \<open>Concrete entries\<close>

text \<open>An entry with the required fields only, as \<^verbatim>\<open>DocEntry(id, name, type)\<close> builds it.\<close>

definition DocEntry_new :: "string \<Rightarrow> string \<Rightarrow> DocEntryType \<Rightarrow> DocEntry" where
  "DocEntry_new i n t = \<lparr>id_of = i, name = n, type = t, parent_structure = None,
     return_type = None, access = NONE, signature = None, description = None,
     snippet = None, source_ref = None, tags = [], aliases = [], related = [],
     deprecated = False, deprecation_note = None\<rparr>"

text \<open>The two entries of the LOCK scenario, and a third that scores lower than the second.\<close>

definition lock_first :: DocEntry where
  "lock_first = (DocEntry_new ''LOCK'' ''LOCK'' KEYWORD)\<lparr>tags := [''language'']\<rparr>"

definition lock_second :: DocEntry where
  "lock_second = lock_first\<lparr>tags := [''core''], description := Some ''Locks a value''\<rparr>"

definition lock_third :: DocEntry where
  "lock_third = lock_first\<lparr>tags := [''language'', ''core'', ''language'']\<rparr>"

text \<open>A kept entry with an empty snippet, and a richer entry merged into it.\<close>

definition frame_target :: DocEntry where
  "frame_target = lock_second\<lparr>snippet := Some []\<rparr>"

definition frame_source :: DocEntry where
  "frame_source = lock_first\<lparr>name := ''Lock'', type := COMMAND,
     snippet := Some ''LOCK X TO 1.'', description := Some ''Binds a name'',
     aliases := [''BIND''], deprecated := True\<rparr>"

text \<open>
  Two Suffix entries that no rule of the Tag Engine matches: one without a parent
  structure, and the gain \<open>KP\<close> of a \<open>PIDLOOP\<close>, whose parent no pattern matches
  either.
\<close>

definition foobar :: DocEntry where
  "foobar = DocEntry_new ''FOOBAR'' ''FOOBAR'' SUFFIX"

definition pidloop_kp :: DocEntry where
  "pidloop_kp = (DocEntry_new ''PIDLOOP:KP'' ''KP'' SUFFIX)\<lparr>parent_structure := Some ''PIDLOOP''\<rparr>"

text \<open>The entry of the category scenario, with a given name and type.\<close>

definition gui_click :: "string \<Rightarrow> DocEntryType \<Rightarrow> DocEntry" where
  "gui_click n t = DocEntry_new ''GUI:BUTTON:CLICK'' n t"

text \<open>A structure and six of its suffixes.\<close>

definition vessel :: DocEntry where
  "vessel = DocEntry_new ''VESSEL'' ''Vessel'' STRUCTURE"

definition vessel_suffix :: "string \<Rightarrow> DocEntry" where
  "vessel_suffix n =
     (DocEntry_new (''VESSEL:'' @ n) n SUFFIX)\<lparr>parent_structure := Some ''VESSEL''\<rparr>"

definition fleet :: "DocEntry list" where
  "fleet = [vessel, vessel_suffix ''MASS'', vessel_suffix ''BODY'', vessel_suffix ''ORBIT'',
            vessel_suffix ''FACING'', vessel_suffix ''STATUS'', vessel_suffix ''PARTS'']"

text \<open>An entry that lists itself as related, and one that is its own parent.\<close>

definition self_related :: DocEntry where
  "self_related = (DocEntry_new ''ABS'' ''ABS'' FUNCTION)\<lparr>related := [''ABS'']\<rparr>"

definition self_parent :: DocEntry where
  "self_parent = (DocEntry_new ''CORE'' ''CORE'' SUFFIX)\<lparr>parent_structure := Some ''CORE''\<rparr>"

text \<open>The two direction constants, and a PROGRADE entry that already has ten related ids.\<close>

definition prograde :: DocEntry where
  "prograde = DocEntry_new ''PROGRADE'' ''PROGRADE'' CONSTANT"

definition retrograde :: DocEntry where
  "retrograde = DocEntry_new ''RETROGRADE'' ''RETROGRADE'' CONSTANT"

definition prograde_busy :: DocEntry where
  "prograde_busy = prograde\<lparr>related :=
     [''NORMAL'', ''ANTINORMAL'', ''RADIAL'', ''ANTIRADIAL'', ''SRFPROGRADE'',
      ''SRFRETROGRADE'', ''STEERING'', ''THROTTLE'', ''VECTOR'', ''DIRECTION'']\<rparr>"

text \<open>A suffix with a parent that does not exist and a related id that does not exist.\<close>

definition orphan :: DocEntry where
  "orphan = (DocEntry_new ''SHIP:MASS'' ''MASS'' SUFFIX)\<lparr>parent_structure := Some ''SHIP'',
     related := [''VESSEL'', ''SHIP'', ''VESSEL:MASS'']\<rparr>"

section \<open>Facts about the Deduplicator\<close>

lemma remdups_snoc: "remdups (ys @ [x]) = remdups (filter (\<lambda>y. y \<noteq> x) ys) @ [x]"
  by (induction ys) auto

lemma append_missing_eq:
  "append_missing target xs = target @ rev (remdups (rev (filter (\<lambda>x. x \<notin> set target) xs)))"
proof (induction xs arbitrary: target)
  case Nil
  show ?case by simp
next
  case (Cons x xs)
  show ?case
  proof (cases "x \<in> set target")
    case True
    then show ?thesis using Cons.IH [of target] by simp
  next
    case False
    have f: "filter (\<lambda>y. y \<noteq> x) (rev (filter (\<lambda>y. y \<notin> set target) xs))
             = rev (filter (\<lambda>y. y \<notin> set (target @ [x])) xs)"
      by (simp add: rev_filter [symmetric] conj_commute)
    have "append_missing target (x # xs) = append_missing (target @ [x]) xs"
      using False by simp
    also have "\<dots> = (target @ [x]) @ rev (remdups (rev (filter (\<lambda>y. y \<notin> set (target @ [x])) xs)))"
      by (rule Cons.IH)
    also have "\<dots> = target @ rev (remdups (rev (filter (\<lambda>y. y \<notin> set target) xs) @ [x]))"
      by (simp only: remdups_snoc f rev_append rev.simps append.simps append_assoc)
    also have "\<dots> = target @ rev (remdups (rev (filter (\<lambda>y. y \<notin> set target) (x # xs))))"
      using False by simp
    finally show ?thesis .
  qed
qed

lemma update_absent: "k \<notin> fst ` set al \<Longrightarrow> AList.update k v al = al @ [(k, v)]"
  by (induction al) auto

lemma merge_id_of: "id_of (merge_entry_fields target source) = id_of target"
  by (simp add: merge_entry_fields_def Let_def)

lemma keyed_update:
  "keyed_by_id m \<Longrightarrow> id_of v = k \<Longrightarrow> keyed_by_id (AList.update k v m)"
proof -
  assume k: "keyed_by_id m" and v: "id_of v = k"
  have "list_all (\<lambda>p. id_of (snd p) = fst p) m \<Longrightarrow>
        list_all (\<lambda>p. id_of (snd p) = fst p) (AList.update k v m)"
    using v by (induction m) auto
  then show ?thesis using k by (simp add: keyed_by_id_def AList.distinct_update)
qed

lemma keyed_dedup_step: "keyed_by_id m \<Longrightarrow> keyed_by_id (dedup_step e m)"
proof (cases "map_of m (id_of e)")
  case None
  assume "keyed_by_id m"
  then show ?thesis using None by (simp add: dedup_step_def keyed_update)
next
  case (Some k)
  assume k: "keyed_by_id m"
  have "(id_of e, k) \<in> set m" using Some by (rule map_of_SomeD)
  then have "id_of k = id_of e" using k by (auto simp: keyed_by_id_def list_all_iff)
  then show ?thesis using Some k
    by (simp add: dedup_step_def Let_def keyed_update merge_id_of)
qed

lemma keyed_fold: "keyed_by_id m \<Longrightarrow> keyed_by_id (fold dedup_step xs m)"
  by (induction xs arbitrary: m) (simp_all add: keyed_dedup_step)

lemma keyed_dedup_map: "keyed_by_id (dedup_map xs)"
proof -
  have "keyed_by_id []" by (simp add: keyed_by_id_def)
  then show ?thesis unfolding dedup_map_def by (rule keyed_fold)
qed

lemma dedup_map_snoc: "dedup_map (xs @ [e]) = dedup_step e (dedup_map xs)"
  by (simp add: dedup_map_def)

lemma dedup_map_of_keyed: "keyed_by_id m \<Longrightarrow> dedup_map (map snd m) = m"
proof (induction m rule: rev_induct)
  case Nil
  show ?case by (simp add: dedup_map_def)
next
  case (snoc p m)
  have km: "keyed_by_id m" and fresh: "fst p \<notin> fst ` set m" and pid: "id_of (snd p) = fst p"
    using snoc.prems by (auto simp: keyed_by_id_def)
  have none: "map_of m (id_of (snd p)) = None"
    using fresh pid by (simp add: map_of_eq_None_iff)
  have "dedup_map (map snd (m @ [p])) = dedup_step (snd p) (dedup_map (map snd m))"
    by (simp add: dedup_map_snoc)
  also have "\<dots> = dedup_step (snd p) m" using snoc.IH [OF km] by simp
  also have "\<dots> = AList.update (fst p) (snd p) m"
    using none pid by (simp add: dedup_step_def)
  also have "\<dots> = m @ [p]" using fresh by (simp add: update_absent)
  finally show ?case .
qed

lemma values_update_fresh:
  "list_all (\<lambda>p. id_of (snd p) = fst p) m \<Longrightarrow> k \<notin> fst ` set m
     \<Longrightarrow> map (\<lambda>e. if id_of e = k then v else e) (map snd m) = map snd m"
  by (induction m) auto

lemma values_update_keyed:
  "keyed_by_id m \<Longrightarrow> k \<in> fst ` set m
     \<Longrightarrow> map snd (AList.update k v m) = map (\<lambda>e. if id_of e = k then v else e) (map snd m)"
proof (induction m)
  case Nil
  then show ?case by simp
next
  case (Cons p m)
  have km: "keyed_by_id m" and pid: "id_of (snd p) = fst p" and fresh: "fst p \<notin> fst ` set m"
    and ids: "list_all (\<lambda>p. id_of (snd p) = fst p) m"
    using Cons.prems(1) by (auto simp: keyed_by_id_def)
  show ?case
  proof (cases "fst p = k")
    case True
    then show ?thesis using pid fresh values_update_fresh [OF ids, of k v] by simp
  next
    case False
    then have "k \<in> fst ` set m" using Cons.prems(2) by auto
    then show ?thesis using False pid Cons.IH [OF km] by simp
  qed
qed

lemma score_formula:
  "entry_quality_score e =
     (case description e of None \<Rightarrow> 0 | Some d \<Rightarrow> min (length d) 200)
     + (if truthy (snippet e) then 50 else 0)
     + 5 * length (tags e) + 3 * length (related e)
     + (case source_ref e of None \<Rightarrow> 0 | Some r \<Rightarrow> if CHR ''#'' \<in> set r then 10 else 0)"
  by (auto simp: entry_quality_score_def truthy_def Let_def split: option.splits)

lemma merge_snippet:
  "snippet (merge_entry_fields k e) =
     (if \<not> truthy (snippet k) \<and> truthy (snippet e) then snippet e else snippet k)"
  by (simp add: merge_entry_fields_def Let_def)

lemma merge_description:
  "description (merge_entry_fields k e) =
     (if \<not> truthy (description k) \<and> truthy (description e) then description e else description k)"
  by (simp add: merge_entry_fields_def Let_def)

lemma merge_tags:
  "tags (merge_entry_fields k e) = append_missing (tags k) (tags e)"
  by (simp add: merge_entry_fields_def Let_def)

lemma merge_related:
  "related (merge_entry_fields k e) = append_missing (related k) (related e)"
  by (simp add: merge_entry_fields_def Let_def)


section \<open>Facts about sets kept as lists\<close>

lemma set_set_add: "set (set_add s x) = insert x (set s)"
  by (auto simp: set_add_def)

lemma distinct_set_add: "distinct s \<Longrightarrow> distinct (set_add s x)"
  by (simp add: set_add_def)

lemma set_fold_set_add: "set (fold (\<lambda>x acc. set_add acc x) xs s) = set s \<union> set xs"
  by (induction xs arbitrary: s) (auto simp: set_set_add)

lemma distinct_fold_set_add: "distinct s \<Longrightarrow> distinct (fold (\<lambda>x acc. set_add acc x) xs s)"
  by (induction xs arbitrary: s) (simp_all add: distinct_set_add)

lemma set_set_update: "set (set_update s xs) = set s \<union> set xs"
  by (simp add: set_update_def set_fold_set_add)

lemma distinct_set_update: "distinct s \<Longrightarrow> distinct (set_update s xs)"
  by (simp add: set_update_def distinct_fold_set_add)

lemma set_set_from: "set (set_from xs) = set xs"
  by (simp add: set_from_def set_set_update)

lemma distinct_set_from: "distinct (set_from xs)"
  by (simp add: set_from_def distinct_set_update)

lemma enumerates_length:
  assumes "enumerates enum" and "distinct xs"
  shows "length (enum xs) = length xs"
proof -
  have "distinct (enum xs)" and "set (enum xs) = set xs"
    using assms by (auto simp: enumerates_def)
  then have "length (enum xs) = card (set xs)"
    using distinct_card [of "enum xs"] by simp
  then show ?thesis using distinct_card [OF assms(2)] by simp
qed

lemma enumerates_identity: "enumerates (\<lambda>xs. xs)"
  by (simp add: enumerates_def)

section \<open>Facts about the Cross-Referencer\<close>

lemma keys_update: "fst ` set (AList.update k v m) = insert k (fst ` set m)"
  by (induction m) auto

lemma keys_fold_update:
  "fst ` set (fold (\<lambda>e. AList.update (id_of e) e) xs m) = fst ` set m \<union> id_of ` set xs"
  by (induction xs arbitrary: m) (auto simp: keys_update)

lemma keys_entry_by_id: "set (map fst (entry_by_id entries)) = id_of ` set entries"
  by (simp add: entry_by_id_def keys_fold_update)

lemma count_prefixed_set_add:
  "count_prefixed entry (set_add related_ids x) \<le> Suc (count_prefixed entry related_ids)"
  by (simp add: count_prefixed_def set_add_def)

lemma link_suffix_cases:
  "link_suffix entry other related_ids =
     (if parent_structure other = Some (id_of entry) \<and> id_of other \<noteq> id_of entry
         \<and> count_prefixed entry related_ids < 5
      then set_add related_ids (id_of other) else related_ids)"
  by (simp add: link_suffix_def)

lemma link_suffix_full:
  "5 \<le> count_prefixed entry related_ids \<Longrightarrow> link_suffix entry other related_ids = related_ids"
  by (simp add: link_suffix_def)

lemma link_suffix_count:
  "count_prefixed entry (link_suffix entry other related_ids)
     \<le> max 5 (count_prefixed entry related_ids)"
proof (cases "parent_structure other = Some (id_of entry) \<and> id_of other \<noteq> id_of entry
               \<and> count_prefixed entry related_ids < 5")
  case True
  then have "link_suffix entry other related_ids = set_add related_ids (id_of other)"
    by (simp add: link_suffix_cases)
  moreover have "count_prefixed entry (set_add related_ids (id_of other)) \<le> 5"
    using True count_prefixed_set_add [of entry related_ids "id_of other"] by linarith
  ultimately show ?thesis by simp
next
  case False
  then have "link_suffix entry other related_ids = related_ids"
    using link_suffix_cases [of entry other related_ids] by metis
  then show ?thesis by simp
qed

lemma link_suffix_mono: "x \<in> set related_ids \<Longrightarrow> x \<in> set (link_suffix entry other related_ids)"
  by (simp add: link_suffix_def set_set_add)

lemma link_suffix_distinct:
  "distinct related_ids \<Longrightarrow> distinct (link_suffix entry other related_ids)"
  by (simp add: link_suffix_def distinct_set_add)

lemma link_suffix_no_self:
  "id_of entry \<notin> set related_ids \<Longrightarrow> id_of entry \<notin> set (link_suffix entry other related_ids)"
  by (auto simp: link_suffix_def set_set_add)

lemma link_suffixes_full:
  "5 \<le> count_prefixed entry related_ids \<Longrightarrow> link_suffixes entry others related_ids = related_ids"
  by (induction others) (simp_all add: link_suffix_full)

lemma link_suffixes_count:
  "count_prefixed entry (link_suffixes entry others related_ids)
     \<le> max 5 (count_prefixed entry related_ids)"
proof (induction others arbitrary: related_ids)
  case Nil
  show ?case by simp
next
  case (Cons other others)
  have "count_prefixed entry (link_suffixes entry others (link_suffix entry other related_ids))
          \<le> max 5 (count_prefixed entry (link_suffix entry other related_ids))"
    by (rule Cons.IH)
  also have "\<dots> \<le> max 5 (count_prefixed entry related_ids)"
    using link_suffix_count [of entry other related_ids] by linarith
  finally show ?case by simp
qed

lemma link_suffixes_mono:
  "x \<in> set related_ids \<Longrightarrow> x \<in> set (link_suffixes entry others related_ids)"
  by (induction others arbitrary: related_ids) (simp_all add: link_suffix_mono)

lemma link_suffixes_distinct:
  "distinct related_ids \<Longrightarrow> distinct (link_suffixes entry others related_ids)"
  by (induction others arbitrary: related_ids) (simp_all add: link_suffix_distinct)

lemma link_suffixes_no_self:
  "id_of entry \<notin> set related_ids \<Longrightarrow> id_of entry \<notin> set (link_suffixes entry others related_ids)"
  by (induction others arbitrary: related_ids) (simp_all add: link_suffix_no_self)

lemma link_pair_mono: "x \<in> set related_ids \<Longrightarrow> x \<in> set (link_pair entry ids pair related_ids)"
  by (simp add: link_pair_def set_set_add)

lemma link_pair_distinct:
  "distinct related_ids \<Longrightarrow> distinct (link_pair entry ids pair related_ids)"
  by (simp add: link_pair_def distinct_set_add)

lemma link_pair_no_self:
  "fst pair \<noteq> snd pair \<Longrightarrow> id_of entry \<notin> set related_ids
     \<Longrightarrow> id_of entry \<notin> set (link_pair entry ids pair related_ids)"
  by (auto simp: link_pair_def set_set_add)

lemma link_pair_left:
  "id_of entry = fst pair \<Longrightarrow> snd pair \<in> set ids
     \<Longrightarrow> snd pair \<in> set (link_pair entry ids pair related_ids)"
  by (simp add: link_pair_def set_set_add)

lemma link_pair_right:
  "id_of entry = snd pair \<Longrightarrow> fst pair \<in> set ids
     \<Longrightarrow> fst pair \<in> set (link_pair entry ids pair related_ids)"
  by (auto simp: link_pair_def set_set_add)

lemma link_pairs_mono:
  "x \<in> set related_ids \<Longrightarrow> x \<in> set (link_pairs entry ids pairs related_ids)"
  by (induction pairs arbitrary: related_ids) (simp_all add: link_pair_mono)

lemma link_pairs_distinct:
  "distinct related_ids \<Longrightarrow> distinct (link_pairs entry ids pairs related_ids)"
  by (induction pairs arbitrary: related_ids) (simp_all add: link_pair_distinct)

lemma link_pairs_no_self:
  "\<forall>p \<in> set pairs. fst p \<noteq> snd p \<Longrightarrow> id_of entry \<notin> set related_ids
     \<Longrightarrow> id_of entry \<notin> set (link_pairs entry ids pairs related_ids)"
  by (induction pairs arbitrary: related_ids) (simp_all add: link_pair_no_self)

lemma link_pairs_left:
  "p \<in> set pairs \<Longrightarrow> id_of entry = fst p \<Longrightarrow> snd p \<in> set ids
     \<Longrightarrow> snd p \<in> set (link_pairs entry ids pairs related_ids)"
proof (induction pairs arbitrary: related_ids)
  case Nil
  then show ?case by simp
next
  case (Cons q pairs)
  show ?case
  proof (cases "p = q")
    case True
    have "snd p \<in> set (link_pair entry ids p related_ids)"
      using Cons.prems(2,3) by (rule link_pair_left)
    then have "snd p \<in> set (link_pairs entry ids pairs (link_pair entry ids p related_ids))"
      by (rule link_pairs_mono)
    then show ?thesis using True by simp
  next
    case False
    then have "p \<in> set pairs" using Cons.prems(1) by simp
    then have "snd p \<in> set (link_pairs entry ids pairs (link_pair entry ids q related_ids))"
      using Cons.prems(2,3) by (rule Cons.IH)
    then show ?thesis by simp
  qed
qed

lemma link_pairs_right:
  "p \<in> set pairs \<Longrightarrow> id_of entry = snd p \<Longrightarrow> fst p \<in> set ids
     \<Longrightarrow> fst p \<in> set (link_pairs entry ids pairs related_ids)"
proof (induction pairs arbitrary: related_ids)
  case Nil
  then show ?case by simp
next
  case (Cons q pairs)
  show ?case
  proof (cases "p = q")
    case True
    have "fst p \<in> set (link_pair entry ids p related_ids)"
      using Cons.prems(2,3) by (rule link_pair_right)
    then have "fst p \<in> set (link_pairs entry ids pairs (link_pair entry ids p related_ids))"
      by (rule link_pairs_mono)
    then show ?thesis using True by simp
  next
    case False
    then have "p \<in> set pairs" using Cons.prems(1) by simp
    then have "fst p \<in> set (link_pairs entry ids pairs (link_pair entry ids q related_ids))"
      using Cons.prems(2,3) by (rule Cons.IH)
    then show ?thesis by simp
  qed
qed

lemma link_mention_mono:
  "x \<in> set related_ids \<Longrightarrow> x \<in> set (link_mention entry desc_upper item related_ids)"
  by (simp add: link_mention_def Let_def set_set_add)

lemma link_mention_distinct:
  "distinct related_ids \<Longrightarrow> distinct (link_mention entry desc_upper item related_ids)"
  by (simp add: link_mention_def Let_def distinct_set_add)

lemma link_mention_no_self:
  "id_of entry \<notin> set related_ids
     \<Longrightarrow> id_of entry \<notin> set (link_mention entry desc_upper item related_ids)"
  by (auto simp: link_mention_def Let_def set_set_add)

lemma link_mentions_mono:
  "x \<in> set related_ids \<Longrightarrow> x \<in> set (link_mentions entry desc_upper items related_ids)"
  by (induction items arbitrary: related_ids) (simp_all add: link_mention_mono)

lemma link_mentions_distinct:
  "distinct related_ids \<Longrightarrow> distinct (link_mentions entry desc_upper items related_ids)"
  by (induction items arbitrary: related_ids) (simp_all add: link_mention_distinct)

lemma link_mentions_no_self:
  "id_of entry \<notin> set related_ids
     \<Longrightarrow> id_of entry \<notin> set (link_mentions entry desc_upper items related_ids)"
  by (induction items arbitrary: related_ids) (simp_all add: link_mention_no_self)

lemma complementary_pairs_differ: "\<forall>p \<in> set complementary_pairs. fst p \<noteq> snd p"
  by (simp add: complementary_pairs_def)

lemma link_parent_mono: "x \<in> set related_ids \<Longrightarrow> x \<in> set (link_parent entry ids related_ids)"
  by (simp add: link_parent_def set_set_add)

lemma link_parent_distinct: "distinct related_ids \<Longrightarrow> distinct (link_parent entry ids related_ids)"
  by (simp add: link_parent_def distinct_set_add)

lemma link_parent_no_self:
  "id_of entry \<notin> set related_ids \<Longrightarrow> parent_structure entry \<noteq> Some (id_of entry)
     \<Longrightarrow> id_of entry \<notin> set (link_parent entry ids related_ids)"
  by (auto simp: link_parent_def set_set_add truthy_def split: option.splits)

lemma link_structure_mono:
  "x \<in> set related_ids \<Longrightarrow> x \<in> set (link_structure entry entries related_ids)"
  by (simp add: link_structure_def link_suffixes_mono)

lemma link_structure_distinct:
  "distinct related_ids \<Longrightarrow> distinct (link_structure entry entries related_ids)"
  by (simp add: link_structure_def link_suffixes_distinct)

lemma link_structure_no_self:
  "id_of entry \<notin> set related_ids \<Longrightarrow> id_of entry \<notin> set (link_structure entry entries related_ids)"
  by (simp add: link_structure_def link_suffixes_no_self)

lemma link_description_mono:
  "x \<in> set related_ids \<Longrightarrow> x \<in> set (link_description entry by_id related_ids)"
  by (simp add: link_description_def link_mentions_mono)

lemma link_description_distinct:
  "distinct related_ids \<Longrightarrow> distinct (link_description entry by_id related_ids)"
  by (simp add: link_description_def link_mentions_distinct)

lemma link_description_no_self:
  "id_of entry \<notin> set related_ids \<Longrightarrow> id_of entry \<notin> set (link_description entry by_id related_ids)"
  by (simp add: link_description_def link_mentions_no_self)

lemma related_candidates_eq:
  "related_candidates entries entry =
     link_description entry (entry_by_id entries)
       (link_pairs entry (map fst (entry_by_id entries)) complementary_pairs
         (link_structure entry entries
           (link_parent entry (map fst (entry_by_id entries)) (set_from (related entry)))))"
  by (simp only: related_candidates_def Let_def)

lemma related_candidates_distinct: "distinct (related_candidates entries entry)"
  unfolding related_candidates_eq
  by (intro link_description_distinct link_pairs_distinct link_structure_distinct
        link_parent_distinct distinct_set_from)

lemma related_candidates_no_self:
  assumes "id_of entry \<notin> set (related entry)" and "parent_structure entry \<noteq> Some (id_of entry)"
  shows "id_of entry \<notin> set (related_candidates entries entry)"
proof -
  have 1: "id_of entry \<notin> set (set_from (related entry))"
    using assms(1) by (simp add: set_set_from)
  show ?thesis
    unfolding related_candidates_eq
    by (intro link_description_no_self link_pairs_no_self complementary_pairs_differ
          link_structure_no_self link_parent_no_self 1 assms(2))
qed

lemma related_candidates_pair_left:
  assumes "p \<in> set complementary_pairs" and "id_of entry = fst p" and "snd p \<in> id_of ` set entries"
  shows "snd p \<in> set (related_candidates entries entry)"
proof -
  have "snd p \<in> set (map fst (entry_by_id entries))"
    using assms(3) by (simp only: keys_entry_by_id)
  then show ?thesis
    unfolding related_candidates_eq
    by (intro link_description_mono link_pairs_left assms(1,2))
qed

lemma related_candidates_pair_right:
  assumes "p \<in> set complementary_pairs" and "id_of entry = snd p" and "fst p \<in> id_of ` set entries"
  shows "fst p \<in> set (related_candidates entries entry)"
proof -
  have "fst p \<in> set (map fst (entry_by_id entries))"
    using assms(3) by (simp only: keys_entry_by_id)
  then show ?thesis
    unfolding related_candidates_eq
    by (intro link_description_mono link_pairs_right assms(1,2))
qed

lemma link_entry_subset:
  "enumerates enum \<Longrightarrow>
     set (related (link_entry enum entries entry)) \<subseteq> set (related_candidates entries entry)"
  using related_candidates_distinct [of entries entry] set_take_subset [of 10]
  by (fastforce simp: link_entry_def enumerates_def)

lemma link_entry_all:
  assumes "enumerates enum" and "length (related_candidates entries entry) \<le> 10"
  shows "set (related (link_entry enum entries entry)) = set (related_candidates entries entry)"
proof -
  have d: "distinct (related_candidates entries entry)" by (rule related_candidates_distinct)
  have "length (enum (related_candidates entries entry)) \<le> 10"
    using enumerates_length [OF assms(1) d] assms(2) by simp
  then have "take 10 (enum (related_candidates entries entry)) = enum (related_candidates entries entry)"
    by simp
  then show ?thesis using assms(1) d by (simp add: link_entry_def enumerates_def)
qed

section \<open>Facts about the Validator\<close>

lemma filter_valid_all:
  "filter (\<lambda>r. r \<notin> S) xs = [] \<Longrightarrow> filter (\<lambda>r. r \<in> S) xs = xs"
  by (induction xs) (auto split: if_splits)

lemma check_references_entry:
  "fst (check_references entry_ids entry)
     = entry\<lparr>related := filter (\<lambda>r. r \<in> entry_ids) (related entry)\<rparr>"
  by (simp add: check_references_def Let_def filter_valid_all)

lemma check_references_warnings:
  "snd (check_references entry_ids entry)
     = (if truthy (parent_structure entry) \<and> the (parent_structure entry) \<notin> entry_ids
        then [parent_warning entry] else [])"
  by (simp add: check_references_def Let_def)

lemma cross_reference_loop_eq:
  "cross_reference_loop entry_ids entries visited errors warnings =
     (visited @ map (\<lambda>e. fst (check_references entry_ids e)) entries, errors,
      warnings @ concat (map (\<lambda>e. snd (check_references entry_ids e)) entries))"
  by (induction entries arbitrary: visited warnings) (simp_all split: prod.splits)

lemma concat_map_if:
  "concat (map (\<lambda>e. if P e then [f e] else []) xs) = map f (filter P xs)"
  by (induction xs) simp_all

section \<open>Facts about the Category Classifier\<close>

lemma upper_gui_button_click: "upper ''GUI:BUTTON:CLICK'' = ''GUI:BUTTON:CLICK''"
  by code_simp

lemma scan_gui_button_click:
  "scan_structures ''GUI:BUTTON:CLICK'' STRUCTURE_CATEGORIES = Some ''GUI Elements''"
  by code_simp

section \<open>The claims\<close>

subsection \<open>Deduplicator\<close>

text \<open>
  Claim C1.  Let \<open>seen\<close> be the entries \<^verbatim>\<open>deduplicate_entries\<close> has already
  visited and \<open>new\<close> the next one, whose id the dict already holds with the
  kept entry \<open>kept\<close>.  Then the round stores under that id the new entry if its
  score is strictly greater than the kept entry's, and otherwise the kept entry
  merged with the new one; the dict is changed nowhere else, and the result of
  the function is its result on the entries seen before with the kept entry
  replaced, where it stands, in that way.  The score of either entry is
  \<open>min(len(description), 200)\<close>, plus 50 for a non-empty snippet, plus 5 per
  tag, plus 3 per related id, plus 10 if the source reference contains \<open>#\<close>.
  The merge takes the new entry's snippet (description) only where the kept one is
  empty and the new one is not, and appends to the kept tags (related ids) the new
  entry's tags (related ids) that the kept entry lacks, in their order, each once.
\<close>

theorem deduplicate_repeat_policy:
  assumes "map_of (dedup_map seen) (id_of new) = Some kept"
  shows "dedup_map (seen @ [new]) =
           AList.update (id_of new)
             (if entry_quality_score kept < entry_quality_score new then new
              else merge_entry_fields kept new) (dedup_map seen)
    \<and> deduplicate_entries (seen @ [new]) =
           map (\<lambda>e. if id_of e = id_of new
                     then (if entry_quality_score kept < entry_quality_score new then new
                           else merge_entry_fields kept new)
                     else e) (deduplicate_entries seen)
    \<and> (\<forall>e \<in> {kept, new}. entry_quality_score e =
          (case description e of None \<Rightarrow> 0 | Some d \<Rightarrow> min (length d) 200)
          + (if truthy (snippet e) then 50 else 0)
          + 5 * length (tags e) + 3 * length (related e)
          + (case source_ref e of None \<Rightarrow> 0
             | Some r \<Rightarrow> if CHR ''#'' \<in> set r then 10 else 0))
    \<and> snippet (merge_entry_fields kept new) =
          (if \<not> truthy (snippet kept) \<and> truthy (snippet new) then snippet new else snippet kept)
    \<and> description (merge_entry_fields kept new) =
          (if \<not> truthy (description kept) \<and> truthy (description new)
           then description new else description kept)
    \<and> tags (merge_entry_fields kept new) =
          tags kept @ rev (remdups (rev (filter (\<lambda>t. t \<notin> set (tags kept)) (tags new))))
    \<and> related (merge_entry_fields kept new) =
          related kept @ rev (remdups (rev (filter (\<lambda>r. r \<notin> set (related kept)) (related new))))"
proof -
  let ?w = "if entry_quality_score kept < entry_quality_score new then new
            else merge_entry_fields kept new"
  have step: "dedup_map (seen @ [new]) = AList.update (id_of new) ?w (dedup_map seen)"
    using assms by (simp add: dedup_map_snoc dedup_step_def Let_def)
  have "(id_of new, kept) \<in> set (dedup_map seen)" using assms by (rule map_of_SomeD)
  then have "id_of new \<in> fst ` set (dedup_map seen)" by force
  then have out: "deduplicate_entries (seen @ [new]) =
           map (\<lambda>e. if id_of e = id_of new then ?w else e) (deduplicate_entries seen)"
    unfolding deduplicate_entries_def step
    by (rule values_update_keyed [OF keyed_dedup_map])
  have sc: "\<forall>e \<in> {kept, new}. entry_quality_score e =
          (case description e of None \<Rightarrow> 0 | Some d \<Rightarrow> min (length d) 200)
          + (if truthy (snippet e) then 50 else 0)
          + 5 * length (tags e) + 3 * length (related e)
          + (case source_ref e of None \<Rightarrow> 0
             | Some r \<Rightarrow> if CHR ''#'' \<in> set r then 10 else 0)"
    using score_formula by blast
  show ?thesis
    using step out sc
    by (simp only: merge_snippet merge_description merge_tags merge_related
          append_missing_eq simp_thms)
qed

text \<open>
  An instance: the third LOCK entry scores 15, the kept second entry 18, so the
  kept entry stays and gains the tag it lacked.
\<close>

theorem deduplicate_repeat_policy_witness:
  "map_of (dedup_map [lock_second]) (id_of lock_third) = Some lock_second
   \<and> deduplicate_entries ([lock_second] @ [lock_third]) =
       [lock_second\<lparr>tags := [''core'', ''language'']\<rparr>]"
proof -
  have m: "dedup_map [lock_second] = [(''LOCK'', lock_second)]"
    by (simp add: dedup_map_def dedup_step_def lock_second_def lock_first_def DocEntry_new_def)
  have h: "map_of (dedup_map [lock_second]) (id_of lock_third) = Some lock_second"
    by (simp add: m lock_third_def lock_first_def DocEntry_new_def)
  have s: "\<not> entry_quality_score lock_second < entry_quality_score lock_third"
    by (simp add: entry_quality_score_def lock_third_def lock_second_def lock_first_def DocEntry_new_def
          truthy_def Let_def)
  have t: "merge_entry_fields lock_second lock_third = lock_second\<lparr>tags := [''core'', ''language'']\<rparr>"
    by (simp add: merge_entry_fields_def lock_third_def lock_second_def lock_first_def DocEntry_new_def
          truthy_def Let_def)
  have i: "id_of lock_third = ''LOCK''"
    by (simp add: lock_third_def lock_first_def DocEntry_new_def)
  have "dedup_map ([lock_second] @ [lock_third]) =
          AList.update (id_of lock_third)
            (if entry_quality_score lock_second < entry_quality_score lock_third then lock_third
             else merge_entry_fields lock_second lock_third) (dedup_map [lock_second])"
    using deduplicate_repeat_policy [OF h] by (rule conjunct1)
  then have "dedup_map ([lock_second] @ [lock_third])
             = [(''LOCK'', lock_second\<lparr>tags := [''core'', ''language'']\<rparr>)]"
    by (simp add: s t i m)
  then show ?thesis using h by (simp only: deduplicate_entries_def list.map snd_conv simp_thms)
qed

text \<open>
  Claim C2, as the code has it.  In the LOCK scenario the first entry scores 5
  (one tag) and the second 18 (one tag and a description of 13 characters), so
  the second entry replaces the first: the result is the second entry alone,
  unchanged, whatever the names and types of the two entries are.
\<close>

theorem lock_scenario_replace:
  "entry_quality_score (lock_first\<lparr>name := n1, type := t1\<rparr>) = 5
   \<and> entry_quality_score (lock_second\<lparr>name := n2, type := t2\<rparr>) = 18
   \<and> deduplicate_entries [lock_first\<lparr>name := n1, type := t1\<rparr>,
                            lock_second\<lparr>name := n2, type := t2\<rparr>]
       = [lock_second\<lparr>name := n2, type := t2\<rparr>]"
  by (simp add: deduplicate_entries_def dedup_map_def dedup_step_def entry_quality_score_def
        lock_second_def lock_first_def DocEntry_new_def truthy_def Let_def)

text \<open>
  The scenario as stated fails: the surviving entry has the single tag
  \<open>core\<close>, and \<open>language\<close> is lost with the replaced entry.
\<close>

theorem lock_scenario_counterexample:
  "map tags (deduplicate_entries [lock_first, lock_second]) = [[''core'']]
   \<and> entry_quality_score lock_first < entry_quality_score lock_second"
  by (simp add: deduplicate_entries_def dedup_map_def dedup_step_def entry_quality_score_def
        lock_second_def lock_first_def DocEntry_new_def truthy_def Let_def)

text \<open>
  Claim C7.  \<^verbatim>\<open>deduplicate_entries\<close> is idempotent: on its own output it returns
  the same entries, with the same fields, in the same order.
\<close>

theorem deduplicate_idempotent:
  "deduplicate_entries (deduplicate_entries entries) = deduplicate_entries entries"
  unfolding deduplicate_entries_def
  by (simp add: dedup_map_of_keyed [OF keyed_dedup_map])

text \<open>
  Claim C10.  \<^verbatim>\<open>_merge_entry_fields\<close> leaves the kept entry's id, name, type,
  parent structure, return type, access, signature, source reference, aliases,
  deprecation flag and deprecation note as they were.  A non-empty snippet or
  description of the kept entry is never overwritten; where the snippet or the
  description does change, the kept one was empty and the new value is the new
  entry's.
\<close>

theorem merge_frame:
  "id_of (merge_entry_fields target source) = id_of target
   \<and> name (merge_entry_fields target source) = name target
   \<and> type (merge_entry_fields target source) = type target
   \<and> parent_structure (merge_entry_fields target source) = parent_structure target
   \<and> return_type (merge_entry_fields target source) = return_type target
   \<and> access (merge_entry_fields target source) = access target
   \<and> signature (merge_entry_fields target source) = signature target
   \<and> source_ref (merge_entry_fields target source) = source_ref target
   \<and> aliases (merge_entry_fields target source) = aliases target
   \<and> deprecated (merge_entry_fields target source) = deprecated target
   \<and> deprecation_note (merge_entry_fields target source) = deprecation_note target
   \<and> (truthy (snippet target) \<longrightarrow>
          snippet (merge_entry_fields target source) = snippet target)
   \<and> (truthy (description target) \<longrightarrow>
          description (merge_entry_fields target source) = description target)
   \<and> (snippet (merge_entry_fields target source) \<noteq> snippet target \<longrightarrow>
          \<not> truthy (snippet target) \<and> snippet (merge_entry_fields target source) = snippet source)
   \<and> (description (merge_entry_fields target source) \<noteq> description target \<longrightarrow>
          \<not> truthy (description target)
          \<and> description (merge_entry_fields target source) = description source)"
  by (simp add: merge_entry_fields_def Let_def)

text \<open>
  An instance: the kept description stays, the empty kept snippet is filled, and
  the name and aliases of the kept entry do not follow the merged one.
\<close>

theorem merge_frame_witness:
  "truthy (description frame_target)
   \<and> description (merge_entry_fields frame_target frame_source) = description frame_target
   \<and> snippet (merge_entry_fields frame_target frame_source) \<noteq> snippet frame_target
   \<and> \<not> truthy (snippet frame_target)
   \<and> snippet (merge_entry_fields frame_target frame_source) = snippet frame_source
   \<and> name (merge_entry_fields frame_target frame_source) = ''LOCK''
   \<and> aliases (merge_entry_fields frame_target frame_source) = []"
proof -
  have d: "truthy (description frame_target)"
    by (simp add: frame_target_def lock_second_def truthy_def)
  have s: "snippet (merge_entry_fields frame_target frame_source) \<noteq> snippet frame_target"
    by (simp add: merge_entry_fields_def frame_target_def frame_source_def lock_second_def
          lock_first_def DocEntry_new_def truthy_def Let_def)
  show ?thesis using merge_frame [of frame_target frame_source] d s
    by (simp add: frame_target_def lock_second_def lock_first_def DocEntry_new_def)
qed

subsection \<open>Tag Engine\<close>

text \<open>
  Claim C3 does not hold of the code.  For a Suffix entry that no rule matches
  and that has no tags, the union of the contributions is empty; when it has no
  parent structure, or one that no pattern matches, the fallback adds the single
  tag \<open>misc\<close> and the result has one tag, not two.
\<close>

theorem tag_floor_missed:
  "assign_tags_to_entry foobar = [''misc'']
   \<and> length (assign_tags_to_entry foobar) < 2
   \<and> assign_tags_to_entry pidloop_kp = [''misc'']
   \<and> length (assign_tags_to_entry pidloop_kp) < 2"
  by code_simp

subsection \<open>Cross-Referencer\<close>

text \<open>
  Claim C4, as the code has it.  The suffix-linkage rule adds the id of an entry
  whose parent structure is the structure's id (and whose id differs from it)
  exactly when fewer than 5 ids of the related set start with the structure's id
  followed by a colon.  Once 5 such ids are present the rule adds nothing more.
  So the rule leaves at most 5 such ids in the set, unless more were there
  before, and adds at most 5 of them.
\<close>

theorem link_suffixes_stops_at_five:
  "link_suffixes entry (other # others) related_ids =
     link_suffixes entry others
       (if parent_structure other = Some (id_of entry) \<and> id_of other \<noteq> id_of entry
           \<and> count_prefixed entry related_ids < 5
        then set_add related_ids (id_of other) else related_ids)
   \<and> (5 \<le> count_prefixed entry related_ids \<longrightarrow>
         link_suffixes entry others related_ids = related_ids)
   \<and> count_prefixed entry (link_suffixes entry others related_ids)
         \<le> max 5 (count_prefixed entry related_ids)
   \<and> count_prefixed entry (link_suffixes entry others related_ids)
         - count_prefixed entry related_ids \<le> 5"
proof -
  have c: "count_prefixed entry (link_suffixes entry others related_ids)
             \<le> max 5 (count_prefixed entry related_ids)"
    by (rule link_suffixes_count)
  then have d: "count_prefixed entry (link_suffixes entry others related_ids)
                  - count_prefixed entry related_ids \<le> 5"
    by linarith
  have s: "link_suffixes entry (other # others) related_ids =
     link_suffixes entry others
       (if parent_structure other = Some (id_of entry) \<and> id_of other \<noteq> id_of entry
           \<and> count_prefixed entry related_ids < 5
        then set_add related_ids (id_of other) else related_ids)"
    by (simp only: link_suffixes.simps link_suffix_cases)
  show ?thesis
    using c d s link_suffixes_full [of entry related_ids others] by blast
qed

text \<open>
  The bound of 4 fails: a structure with six suffixes gets five of them, through
  the rule and through the whole pass.
\<close>

theorem link_suffixes_five_counterexample:
  "link_suffixes vessel fleet [] =
     [''VESSEL:MASS'', ''VESSEL:BODY'', ''VESSEL:ORBIT'', ''VESSEL:FACING'', ''VESSEL:STATUS'']
   \<and> count_prefixed vessel (link_suffixes vessel fleet []) = 5
   \<and> related (link_entry (\<lambda>xs. xs) fleet vessel) =
     [''VESSEL:MASS'', ''VESSEL:BODY'', ''VESSEL:ORBIT'', ''VESSEL:FACING'', ''VESSEL:STATUS'']"
  by code_simp

text \<open>An instance: after five suffixes the sixth is not added.\<close>

theorem link_suffixes_stops_at_five_witness:
  "5 \<le> count_prefixed vessel (link_suffixes vessel (take 6 fleet) [])
   \<and> link_suffixes vessel [vessel_suffix ''PARTS''] (link_suffixes vessel (take 6 fleet) [])
       = link_suffixes vessel (take 6 fleet) []"
proof -
  have h: "5 \<le> count_prefixed vessel (link_suffixes vessel (take 6 fleet) [])"
    by code_simp
  show ?thesis
    using link_suffixes_stops_at_five [of vessel "vessel_suffix ''PARTS''" "[]"
            "link_suffixes vessel (take 6 fleet) []"] h
    by simp
qed

text \<open>
  Claim C5, as the code has it.  After \<^verbatim>\<open>build_related_links\<close>, under any
  enumeration order of the sets, every entry's related list has at most 10
  elements, and the related list of an entry does not contain the entry's own id
  provided that its related list did not contain that id before and that the
  entry is not its own parent structure.
\<close>

theorem build_related_links_bounds:
  assumes "enumerates enum"
  shows "list_all (\<lambda>e'. length (related e') \<le> 10) (build_related_links enum entries)
       \<and> list_all2 (\<lambda>e e'. id_of e' = id_of e
                     \<and> (id_of e \<notin> set (related e) \<and> parent_structure e \<noteq> Some (id_of e)
                          \<longrightarrow> id_of e' \<notin> set (related e')))
            entries (build_related_links enum entries)"
proof -
  have a: "\<And>e. length (related (link_entry enum entries e)) \<le> 10"
    by (simp add: link_entry_def)
  have b: "\<And>e. id_of (link_entry enum entries e) = id_of e"
    by (simp add: link_entry_def)
  have c: "\<And>e. id_of e \<notin> set (related e) \<Longrightarrow> parent_structure e \<noteq> Some (id_of e)
             \<Longrightarrow> id_of e \<notin> set (related (link_entry enum entries e))"
    using link_entry_subset [OF assms] related_candidates_no_self by blast
  show ?thesis
    unfolding build_related_links_def
    by (simp add: list_all_iff list_all2_map2 list_all2_same a b c)
qed

text \<open>
  Without the proviso the second part fails: an id that was in the related list
  stays there, and an entry that is its own parent structure is linked to itself.
  (A set of one element has one enumeration.)
\<close>

theorem build_related_links_self_counterexample:
  "map related (build_related_links (\<lambda>xs. xs) [self_related, self_parent]) = [[''ABS''], [''CORE'']]
   \<and> map id_of (build_related_links (\<lambda>xs. xs) [self_related, self_parent]) = [''ABS'', ''CORE'']"
  by code_simp

text \<open>An instance, with sets enumerated in insertion order.\<close>

theorem build_related_links_bounds_witness:
  "enumerates (\<lambda>xs. xs)
   \<and> map related (build_related_links (\<lambda>xs. xs) [prograde_busy, retrograde])
       = [related prograde_busy, [''PROGRADE'']]
   \<and> list_all2 (\<lambda>e e'. id_of e' = id_of e
                     \<and> (id_of e \<notin> set (related e) \<and> parent_structure e \<noteq> Some (id_of e)
                          \<longrightarrow> id_of e' \<notin> set (related e')))
            [prograde_busy, retrograde] (build_related_links (\<lambda>xs. xs) [prograde_busy, retrograde])
   \<and> id_of retrograde \<notin> set (related retrograde)
   \<and> parent_structure retrograde \<noteq> Some (id_of retrograde)"
proof -
  have e: "enumerates (\<lambda>xs. xs)" by (rule enumerates_identity)
  have r: "map related (build_related_links (\<lambda>xs. xs) [prograde_busy, retrograde])
       = [related prograde_busy, [''PROGRADE'']]" by code_simp
  have h: "id_of retrograde \<notin> set (related retrograde)
           \<and> parent_structure retrograde \<noteq> Some (id_of retrograde)" by code_simp
  show ?thesis
    using build_related_links_bounds [OF e, of "[prograde_busy, retrograde]"] e r h
    by simp
qed

text \<open>
  Claim C6, as the code has it.  When entries with the ids PROGRADE and
  RETROGRADE both exist, each id is in the other entry's set of related ids
  before the cut to 10 elements, and it is in the other entry's related list
  afterwards if that set has at most 10 elements.
\<close>

theorem complementary_pair_symmetry:
  assumes "enumerates enum"
    and "p \<in> set entries" and "id_of p = ''PROGRADE''"
    and "r \<in> set entries" and "id_of r = ''RETROGRADE''"
  shows "''RETROGRADE'' \<in> set (related_candidates entries p)
       \<and> ''PROGRADE'' \<in> set (related_candidates entries r)
       \<and> (length (related_candidates entries p) \<le> 10 \<longrightarrow>
            ''RETROGRADE'' \<in> set (related (link_entry enum entries p)))
       \<and> (length (related_candidates entries r) \<le> 10 \<longrightarrow>
            ''PROGRADE'' \<in> set (related (link_entry enum entries r)))
       \<and> link_entry enum entries p \<in> set (build_related_links enum entries)
       \<and> link_entry enum entries r \<in> set (build_related_links enum entries)"
proof -
  have pair: "(''PROGRADE'', ''RETROGRADE'') \<in> set complementary_pairs"
    by (simp add: complementary_pairs_def)
  have rin: "''RETROGRADE'' \<in> id_of ` set entries" using assms(4,5) by force
  have pin: "''PROGRADE'' \<in> id_of ` set entries" using assms(2,3) by force
  have 1: "''RETROGRADE'' \<in> set (related_candidates entries p)"
    using related_candidates_pair_left [OF pair, of p entries] assms(3) rin by simp
  have 2: "''PROGRADE'' \<in> set (related_candidates entries r)"
    using related_candidates_pair_right [OF pair, of r entries] assms(5) pin by simp
  show ?thesis
    using 1 2 link_entry_all [OF assms(1)] assms(2,4)
    by (simp add: build_related_links_def)
qed

text \<open>
  The cut can drop the link: PROGRADE has ten related ids already, RETROGRADE is
  the eleventh of the set, and an enumeration of the set that lists it last
  (here the insertion order) loses it, while RETROGRADE still links to PROGRADE.
\<close>

theorem complementary_pair_truncated_counterexample:
  "map related (build_related_links (\<lambda>xs. xs) [prograde_busy, retrograde]) =
     [[''NORMAL'', ''ANTINORMAL'', ''RADIAL'', ''ANTIRADIAL'', ''SRFPROGRADE'',
       ''SRFRETROGRADE'', ''STEERING'', ''THROTTLE'', ''VECTOR'', ''DIRECTION''],
      [''PROGRADE'']]
   \<and> map id_of (build_related_links (\<lambda>xs. xs) [prograde_busy, retrograde])
       = [''PROGRADE'', ''RETROGRADE'']"
  by code_simp

text \<open>An instance: the two constants alone link to each other.\<close>

theorem complementary_pair_symmetry_witness:
  "enumerates (\<lambda>xs. xs)
   \<and> prograde \<in> set [prograde, retrograde] \<and> id_of prograde = ''PROGRADE''
   \<and> retrograde \<in> set [prograde, retrograde] \<and> id_of retrograde = ''RETROGRADE''
   \<and> length (related_candidates [prograde, retrograde] prograde) \<le> 10
   \<and> length (related_candidates [prograde, retrograde] retrograde) \<le> 10
   \<and> ''RETROGRADE'' \<in> set (related (link_entry (\<lambda>xs. xs) [prograde, retrograde] prograde))
   \<and> ''PROGRADE'' \<in> set (related (link_entry (\<lambda>xs. xs) [prograde, retrograde] retrograde))"
proof -
  have e: "enumerates (\<lambda>xs. xs)" by (rule enumerates_identity)
  have p: "prograde \<in> set [prograde, retrograde]" and r: "retrograde \<in> set [prograde, retrograde]"
    by simp_all
  have ip: "id_of prograde = ''PROGRADE''" and ir: "id_of retrograde = ''RETROGRADE''"
    by (simp_all add: prograde_def retrograde_def DocEntry_new_def)
  have lp: "length (related_candidates [prograde, retrograde] prograde) \<le> 10"
    and lr: "length (related_candidates [prograde, retrograde] retrograde) \<le> 10"
    by code_simp+
  show ?thesis
    using complementary_pair_symmetry [OF e p ip r ir] e p r ip ir lp lr
    by simp
qed

subsection \<open>Validator\<close>

text \<open>
  Claim C8.  Let \<^verbatim>\<open>validate_cross_references\<close> leave the collection
  \<open>entries'\<close> and return \<open>errors\<close> and \<open>warnings\<close>.  Then every id in every
  related list of \<open>entries'\<close> is the id of an entry of the collection; each
  related list is the old one without the ids that no entry has, and nothing else
  of an entry changes, its parent structure in particular; no error is reported;
  and the warnings are exactly one per entry whose parent structure is given
  (neither \<^verbatim>\<open>None\<close> nor empty) and is the id of no entry, in the order of the
  entries: a dropped related id yields no warning.
\<close>

theorem validate_cross_references_integrity:
  assumes "validate_cross_references entries = (entries', errors, warnings)"
  shows "(\<forall>e' \<in> set entries'. \<forall>r \<in> set (related e'). r \<in> id_of ` set entries')
       \<and> map id_of entries' = map id_of entries
       \<and> entries' = map (\<lambda>e. e\<lparr>related := filter (\<lambda>r. r \<in> id_of ` set entries) (related e)\<rparr>) entries
       \<and> map parent_structure entries' = map parent_structure entries
       \<and> errors = []
       \<and> warnings = map parent_warning
           (filter (\<lambda>e. truthy (parent_structure e)
                        \<and> the (parent_structure e) \<notin> id_of ` set entries) entries)"
proof -
  let ?ids = "id_of ` set entries"
  have res: "validate_cross_references entries =
      (map (\<lambda>e. e\<lparr>related := filter (\<lambda>r. r \<in> ?ids) (related e)\<rparr>) entries, [],
       map parent_warning
           (filter (\<lambda>e. truthy (parent_structure e) \<and> the (parent_structure e) \<notin> ?ids) entries))"
    by (simp add: validate_cross_references_def cross_reference_loop_eq
          check_references_entry check_references_warnings concat_map_if)
  have e: "entries' = map (\<lambda>e. e\<lparr>related := filter (\<lambda>r. r \<in> ?ids) (related e)\<rparr>) entries"
    and er: "errors = []"
    and w: "warnings = map parent_warning
           (filter (\<lambda>e. truthy (parent_structure e) \<and> the (parent_structure e) \<notin> ?ids) entries)"
    using assms res by simp_all
  have i: "map id_of entries' = map id_of entries" by (simp add: e)
  then have "id_of ` set entries' = ?ids" by (metis list.set_map)
  then have m: "\<forall>e' \<in> set entries'. \<forall>r \<in> set (related e'). r \<in> id_of ` set entries'"
    by (auto simp: e)
  have ps: "map parent_structure entries' = map parent_structure entries" by (simp add: e)
  show ?thesis using m i e ps er w by blast
qed

text \<open>
  An instance: the related ids SHIP and VESSEL:MASS are dropped without a
  warning, the missing parent SHIP is reported and kept.
\<close>

theorem validate_cross_references_integrity_witness:
  "validate_cross_references [vessel, orphan] =
     ([vessel, orphan\<lparr>related := [''VESSEL'']\<rparr>], [],
      [''Entry SHIP:MASS references non-existent parent: SHIP''])
   \<and> map id_of [vessel, orphan\<lparr>related := [''VESSEL'']\<rparr>] = map id_of [vessel, orphan]
   \<and> map parent_structure [vessel, orphan\<lparr>related := [''VESSEL'']\<rparr>]
       = map parent_structure [vessel, orphan]"
proof -
  have h: "validate_cross_references [vessel, orphan] =
     ([vessel, orphan\<lparr>related := [''VESSEL'']\<rparr>], [],
      [''Entry SHIP:MASS references non-existent parent: SHIP''])"
    by code_simp
  show ?thesis
    using validate_cross_references_integrity [OF h] h by blast
qed

subsection \<open>Category Classifier\<close>

text \<open>
  Claim C9, as the code has it.  An entry of type Structure or Suffix with the id
  \<open>GUI:BUTTON:CLICK\<close> and no parent structure, whose uppercased name is not a
  key of the structure table, is classified as \<open>GUI Elements\<close> provided that the
  first colon-delimited segment of its uppercased name is not a key of the table
  either, or is one that the table maps to \<open>GUI Elements\<close>.
\<close>

theorem gui_category:
  assumes "type e = STRUCTURE \<or> type e = SUFFIX"
    and "id_of e = ''GUI:BUTTON:CLICK''"
    and "\<not> truthy (parent_structure e)"
    and "map_of STRUCTURE_CATEGORIES (upper (name e)) = None"
    and "map_of STRUCTURE_CATEGORIES (hd (split_on CHR '':'' (upper (name e))))
           \<in> {None, Some ''GUI Elements''}"
  shows "get_category_for_entry e = Some ''GUI Elements''"
proof -
  have t: "type e \<noteq> FUNCTION" "type e \<noteq> KEYWORD" "type e \<noteq> COMMAND" "type e \<noteq> CONSTANT"
    using assms(1) by auto
  have s: "scan_structures (upper (id_of e)) STRUCTURE_CATEGORIES = Some ''GUI Elements''"
    by (simp only: assms(2) upper_gui_button_click scan_gui_button_click)
  show ?thesis
    using assms(5)
    by (auto simp: get_category_for_entry_def Let_def t assms(3,4) s)
qed

text \<open>
  Without the proviso the claim fails: the name \<open>SHIP:CLICK\<close> is not a key, its
  first segment \<open>SHIP\<close> is, and the entry is classified by it.
\<close>

theorem gui_category_counterexample:
  "get_category_for_entry (gui_click ''SHIP:CLICK'' SUFFIX) = Some ''Vessel Properties''
   \<and> map_of STRUCTURE_CATEGORIES (upper ''SHIP:CLICK'') = None
   \<and> map_of STRUCTURE_CATEGORIES ''SHIP:CLICK'' = None"
  by code_simp

text \<open>An instance: with the name \<open>Click\<close> the id decides.\<close>

theorem gui_category_witness:
  "(type (gui_click ''Click'' SUFFIX) = STRUCTURE \<or> type (gui_click ''Click'' SUFFIX) = SUFFIX)
   \<and> id_of (gui_click ''Click'' SUFFIX) = ''GUI:BUTTON:CLICK''
   \<and> \<not> truthy (parent_structure (gui_click ''Click'' SUFFIX))
   \<and> map_of STRUCTURE_CATEGORIES (upper (name (gui_click ''Click'' SUFFIX))) = None
   \<and> map_of STRUCTURE_CATEGORIES (hd (split_on CHR '':'' (upper (name (gui_click ''Click'' SUFFIX)))))
           \<in> {None, Some ''GUI Elements''}
   \<and> get_category_for_entry (gui_click ''Click'' SUFFIX) = Some ''GUI Elements''"
proof -
  have 1: "type (gui_click ''Click'' SUFFIX) = STRUCTURE \<or> type (gui_click ''Click'' SUFFIX) = SUFFIX"
    by (simp add: gui_click_def DocEntry_new_def)
  have 2: "id_of (gui_click ''Click'' SUFFIX) = ''GUI:BUTTON:CLICK''"
    by (simp add: gui_click_def DocEntry_new_def)
  have 3: "\<not> truthy (parent_structure (gui_click ''Click'' SUFFIX))"
    by (simp add: gui_click_def DocEntry_new_def truthy_def)
  have 4: "map_of STRUCTURE_CATEGORIES (upper (name (gui_click ''Click'' SUFFIX))) = None"
    by code_simp
  have 5: "map_of STRUCTURE_CATEGORIES (hd (split_on CHR '':'' (upper (name (gui_click ''Click'' SUFFIX)))))
           \<in> {None, Some ''GUI Elements''}"
    by code_simp
  show ?thesis
    using gui_category [OF 1 2 3 4 5] 1 2 3 4 5 by blast
qed

end
